theory Spec2Isabelle
  imports Main
begin

section \<open>PathMatcher: selecting target paths by inclusion, exclusion and advanced patterns\<close>

text \<open>
  A shallow embedding of \<^verbatim>\<open>src/lib/util/PathMatcher.ts\<close>. The class compiles a list of
  target patterns into one asynchronous decision function and offers two queries,
  \<^verbatim>\<open>pathMatchesPatterns\<close> and \<^verbatim>\<open>filterPathsByPatterns\<close>.

  Two npm packages are used by the class and are not part of it:
  \<^item> \<^verbatim>\<open>normalize-path\<close> is a parameter \<open>normalize_path :: string \<Rightarrow> string\<close> of every
    definition that calls it;
  \<^item> \<^verbatim>\<open>picomatch\<close> is modelled below from a parameter \<open>glob\<close>, the test that one glob
    string compiles to.
  Both are total here. The glob compiler refuses some pattern strings when the matcher
  is constructed; every statement below is about the queries of a matcher that has been
  constructed, and holds for each total extension of the library's functions.
\<close>

subsection \<open>Promises\<close>

text \<open>
  An \<^verbatim>\<open>async\<close> function returns a promise. What the caller that awaits it observes is
  one of three things: the promise is fulfilled with a value, it is rejected with a
  reason (the \<^verbatim>\<open>await\<close> throws), or it never settles.
\<close>

datatype ('e, 'a) promise = Resolved 'a | Rejected 'e | Pending

text \<open>
  \<^verbatim>\<open>await Promise.all(ps)\<close>: rejected as soon as one of the promises is rejected, fulfilled
  with the list of all values once all are fulfilled, and never settled otherwise. When
  several promises are rejected the reason is that of the one rejected first in time;
  time is not modelled, and the reason reported here is that of the first rejected
  promise of the list. No statement below depends on which reason is reported.
\<close>

fun Promise_all :: "('e, 'a) promise list \<Rightarrow> ('e, 'a list) promise" where
  "Promise_all [] = Resolved []"
| "Promise_all (p # ps) =
     (case p of
        Rejected e \<Rightarrow> Rejected e
      | Pending \<Rightarrow> (case Promise_all ps of Rejected e \<Rightarrow> Rejected e | _ \<Rightarrow> Pending)
      | Resolved v \<Rightarrow>
          (case Promise_all ps of
             Resolved vs \<Rightarrow> Resolved (v # vs)
           | Rejected e \<Rightarrow> Rejected e
           | Pending \<Rightarrow> Pending))"

subsection \<open>Patterns\<close>

text \<open>
  Modelled from the spec: the declarations of \<^verbatim>\<open>BasicTargetPattern\<close>,
  \<^verbatim>\<open>AdvancedTargetPattern\<close>, \<^verbatim>\<open>TargetPattern\<close> and \<^verbatim>\<open>TargetMatchingFunction\<close> that
  \<^verbatim>\<open>PathMatcher.ts\<close> imports from \<^verbatim>\<open>types\<close> are not among the sources. A pattern is a
  string or a record \<^verbatim>\<open>{basePatterns, advancedMatcher}\<close>, whose \<^verbatim>\<open>basePatterns\<close> is again a
  list of patterns and whose \<^verbatim>\<open>advancedMatcher\<close> is a caller-supplied asynchronous
  predicate on a path.

  The caller's predicate may perform input and output, so what it returns can depend on
  the state of the outside world when the query runs. That state is the argument of
  type \<open>'w\<close>; the predicate's promise is fulfilled with a boolean, rejected with a reason
  of type \<open>'e\<close>, or never settles.
\<close>

type_synonym BasicTargetPattern = string

datatype ('w, 'e) TargetPattern =
    Basic BasicTargetPattern
  | Advanced "('w, 'e) AdvancedTargetPattern"
and ('w, 'e) AdvancedTargetPattern =
    AdvancedTargetPattern
      (basePatterns: "('w, 'e) TargetPattern list")
      (advancedMatcher: "'w \<Rightarrow> string \<Rightarrow> ('e, bool) promise")

text \<open>
  A matching function built by the class returns, next to its promise, the calls of
  caller-supplied predicates that evaluating it makes: the path each was called with and
  what its promise came to. The list is in the order of the pattern list, which need not
  be the order in time; the statements below use its elements only.
\<close>

type_synonym 'e invocation = "string \<times> ('e, bool) promise"

type_synonym ('w, 'e) TargetMatchingFunction =
  "'w \<Rightarrow> string \<Rightarrow> ('e, bool) promise \<times> 'e invocation list"

record ('w, 'e) SortedPatterns =
  inclusionPatterns :: "BasicTargetPattern list"
  exclusionPatterns :: "BasicTargetPattern list"
  advancedPatterns :: "('w, 'e) AdvancedTargetPattern list"

subsection \<open>Library functions\<close>

text \<open>
  Modelled from the spec: \<^verbatim>\<open>picomatch\<close> is an external package. Given an array of glob
  strings it returns a synchronous test that is true of a path when at least one of the
  globs matches it, and false when the array is empty or none matches. \<open>glob g\<close> is the
  test compiled from the single glob string \<open>g\<close>.
\<close>

definition picomatch :: "(string \<Rightarrow> string \<Rightarrow> bool) \<Rightarrow> string list \<Rightarrow> string \<Rightarrow> bool" where
  "picomatch glob patterns str = list_ex (\<lambda>g. glob g str) patterns"

text \<open>\<^verbatim>\<open>String.prototype.startsWith\<close>, \<^verbatim>\<open>slice(n)\<close> for \<open>n \<ge> 0\<close>, and \<^verbatim>\<open>includes\<close>.\<close>

definition startsWith :: "string \<Rightarrow> string \<Rightarrow> bool" where
  "startsWith s p = (take (length p) s = p)"

definition slice :: "nat \<Rightarrow> string \<Rightarrow> string" where
  "slice n s = drop n s"

fun includes_str :: "string \<Rightarrow> string \<Rightarrow> bool" where
  "includes_str [] p = (p = [])"
| "includes_str (c # cs) p = (startsWith (c # cs) p \<or> includes_str cs p)"

subsection \<open>sortPatterns\<close>

text \<open>
  The body of the \<^verbatim>\<open>forEach\<close> callback: one pattern is pushed onto the end of one of the
  three arrays.
\<close>

definition sortPatterns_step ::
  "(string \<Rightarrow> string) \<Rightarrow> ('w, 'e) SortedPatterns \<Rightarrow> ('w, 'e) TargetPattern
     \<Rightarrow> ('w, 'e) SortedPatterns" where
  "sortPatterns_step normalize_path sp p =
     (case p of
        Basic s \<Rightarrow>
          (let np = normalize_path s in
           if \<not> startsWith np ''!''
           then sp\<lparr>inclusionPatterns := inclusionPatterns sp @ [np]\<rparr>
           else sp\<lparr>exclusionPatterns := exclusionPatterns sp @ [slice 1 np]\<rparr>)
      | Advanced a \<Rightarrow> sp\<lparr>advancedPatterns := advancedPatterns sp @ [a]\<rparr>)"

definition sortPatterns ::
  "(string \<Rightarrow> string) \<Rightarrow> ('w, 'e) TargetPattern list \<Rightarrow> ('w, 'e) SortedPatterns" where
  "sortPatterns normalize_path patterns =
     foldl (sortPatterns_step normalize_path)
       \<lparr>inclusionPatterns = [], exclusionPatterns = [], advancedPatterns = []\<rparr> patterns"

lemma inclusionPatterns_step:
  "inclusionPatterns (sortPatterns_step nz sp p) =
     inclusionPatterns sp @
       (case p of Basic s \<Rightarrow> if startsWith (nz s) ''!'' then [] else [nz s] | Advanced a \<Rightarrow> [])"
  by (simp add: sortPatterns_step_def Let_def split: TargetPattern.splits)

lemma exclusionPatterns_step:
  "exclusionPatterns (sortPatterns_step nz sp p) =
     exclusionPatterns sp @
       (case p of Basic s \<Rightarrow> if startsWith (nz s) ''!'' then [slice 1 (nz s)] else []
        | Advanced a \<Rightarrow> [])"
  by (simp add: sortPatterns_step_def Let_def split: TargetPattern.splits)

lemma advancedPatterns_step:
  "advancedPatterns (sortPatterns_step nz sp p) =
     advancedPatterns sp @ (case p of Basic s \<Rightarrow> [] | Advanced a \<Rightarrow> [a])"
  by (simp add: sortPatterns_step_def Let_def split: TargetPattern.splits)

lemma inclusionPatterns_foldl:
  "inclusionPatterns (foldl (sortPatterns_step nz) sp ps) =
     inclusionPatterns sp @ [nz s. Basic s \<leftarrow> ps, \<not> startsWith (nz s) ''!'']"
  by (induction ps arbitrary: sp)
     (simp_all add: inclusionPatterns_step split: TargetPattern.splits)

lemma exclusionPatterns_foldl:
  "exclusionPatterns (foldl (sortPatterns_step nz) sp ps) =
     exclusionPatterns sp @ [slice 1 (nz s). Basic s \<leftarrow> ps, startsWith (nz s) ''!'']"
  by (induction ps arbitrary: sp)
     (simp_all add: exclusionPatterns_step split: TargetPattern.splits)

lemma advancedPatterns_foldl:
  "advancedPatterns (foldl (sortPatterns_step nz) sp ps) =
     advancedPatterns sp @ [a. Advanced a \<leftarrow> ps]"
  by (induction ps arbitrary: sp)
     (simp_all add: advancedPatterns_step split: TargetPattern.splits)

lemma inclusionPatterns_sortPatterns:
  "inclusionPatterns (sortPatterns nz ps) = [nz s. Basic s \<leftarrow> ps, \<not> startsWith (nz s) ''!'']"
  by (simp add: sortPatterns_def inclusionPatterns_foldl)

lemma exclusionPatterns_sortPatterns:
  "exclusionPatterns (sortPatterns nz ps) =
     [slice 1 (nz s). Basic s \<leftarrow> ps, startsWith (nz s) ''!'']"
  by (simp add: sortPatterns_def exclusionPatterns_foldl)

lemma advancedPatterns_sortPatterns:
  "advancedPatterns (sortPatterns nz ps) = [a. Advanced a \<leftarrow> ps]"
  by (simp add: sortPatterns_def advancedPatterns_foldl)

lemma advancedPatterns_sortPatterns_mem:
  "a \<in> set (advancedPatterns (sortPatterns nz ps)) \<Longrightarrow> Advanced a \<in> set ps"
  by (auto simp: advancedPatterns_sortPatterns split: TargetPattern.splits)

subsection \<open>generateMatchingFunction and generateAdvancedMatcher\<close>

text \<open>
  The two methods call each other. Each returns a closure, the \<^verbatim>\<open>async (t) => ...\<close> of the
  source, here \<open>\<lambda>w t. ...\<close> with the state of the world added. The operators \<^verbatim>\<open>&&\<close> and
  \<^verbatim>\<open>||\<close> evaluate their right operand only when the left one does not decide, so the
  advanced matchers are called only when the exclusion clause holds, the pattern list is
  not without inclusion and advanced patterns, and the inclusion matcher is false; then
  \<^verbatim>\<open>advancedMatchers.map(am => am(t))\<close> calls every one of them before
  \<^verbatim>\<open>Promise.all\<close> is awaited. In \<^verbatim>\<open>generateAdvancedMatcher\<close>, the caller's predicate is
  called only when the awaited base matcher is fulfilled with true.
\<close>

function generateMatchingFunction ::
    "(string \<Rightarrow> string \<Rightarrow> bool) \<Rightarrow> (string \<Rightarrow> string) \<Rightarrow> ('w, 'e) TargetPattern list
       \<Rightarrow> ('w, 'e) TargetMatchingFunction"
  and generateAdvancedMatcher ::
    "(string \<Rightarrow> string \<Rightarrow> bool) \<Rightarrow> (string \<Rightarrow> string) \<Rightarrow> ('w, 'e) AdvancedTargetPattern
       \<Rightarrow> ('w, 'e) TargetMatchingFunction" where
  "generateMatchingFunction glob normalize_path patterns =
     (let sp = sortPatterns normalize_path patterns;
          inclusionMatcher = picomatch glob (inclusionPatterns sp);
          exclusionMatcher = picomatch glob (exclusionPatterns sp);
          advancedMatchers =
            map (\<lambda>ap. generateAdvancedMatcher glob normalize_path ap) (advancedPatterns sp)
      in (\<lambda>w t.
            if \<not> (exclusionPatterns sp = [] \<or> \<not> exclusionMatcher t) then (Resolved False, [])
            else if (inclusionPatterns sp = [] \<and> advancedPatterns sp = []) \<or> inclusionMatcher t
              then (Resolved True, [])
            else
              (let rs = map (\<lambda>am. am w t) advancedMatchers in
                 (case Promise_all (map fst rs) of
                    Resolved bs \<Rightarrow> Resolved (True \<in> set bs)
                  | Rejected e \<Rightarrow> Rejected e
                  | Pending \<Rightarrow> Pending,
                  concat (map snd rs)))))"
| "generateAdvancedMatcher glob normalize_path pattern =
     (let baseMatcher = generateMatchingFunction glob normalize_path (basePatterns pattern)
      in (\<lambda>w t.
            (case baseMatcher w t of
               (Resolved True, calls) \<Rightarrow>
                 (advancedMatcher pattern w t, calls @ [(t, advancedMatcher pattern w t)])
             | (Resolved False, calls) \<Rightarrow> (Resolved False, calls)
             | (Rejected e, calls) \<Rightarrow> (Rejected e, calls)
             | (Pending, calls) \<Rightarrow> (Pending, calls))))"
  by pat_completeness auto

termination
proof (relation "measure (\<lambda>x. case x of
            Inl (g, nz, ps) \<Rightarrow> 2 * size_list size ps + 1
          | Inr (g, nz, a) \<Rightarrow> 2 * size a)", goal_cases)
  case 1
  show ?case by simp
next
  case (2 glob nz patterns sp im em ap)
  then have "Advanced ap \<in> set patterns"
    by (simp add: advancedPatterns_sortPatterns_mem)
  then have "size (Advanced ap) \<le> size_list size patterns"
    by (simp add: size_list_estimation')
  then show ?case by simp
next
  case (3 glob nz pattern)
  show ?case by (cases pattern) simp
qed

declare generateMatchingFunction.simps [simp del]

declare generateAdvancedMatcher.simps [simp del]

subsection \<open>The class and its queries\<close>

text \<open>
  The object has one field, \<^verbatim>\<open>private readonly matcher\<close>, set by the constructor. The two
  public methods read it and assign nothing.
\<close>

record ('w, 'e) PathMatcher =
  matcher :: "('w, 'e) TargetMatchingFunction"

definition new_PathMatcher ::
  "(string \<Rightarrow> string \<Rightarrow> bool) \<Rightarrow> (string \<Rightarrow> string) \<Rightarrow> ('w, 'e) TargetPattern list
     \<Rightarrow> ('w, 'e) PathMatcher" where
  "new_PathMatcher glob normalize_path patterns =
     \<lparr>matcher = generateMatchingFunction glob normalize_path patterns\<rparr>"

text \<open>
  \<^verbatim>\<open>filterPathsByPatterns\<close> calls the matcher on every normalized target, awaits all the
  promises together, and then walks the results by index, pushing \<^verbatim>\<open>targets[idx]\<close> for
  each true result. The results are as many as the targets, so the index is in range.
\<close>

definition filterPathsByPatterns ::
  "(string \<Rightarrow> string) \<Rightarrow> ('w, 'e) PathMatcher \<Rightarrow> 'w \<Rightarrow> string list
     \<Rightarrow> ('e, string list) promise \<times> 'e invocation list" where
  "filterPathsByPatterns normalize_path this w targets =
     (let rs = map (\<lambda>t. matcher this w (normalize_path t)) targets in
        (case Promise_all (map fst rs) of
           Resolved matchResults \<Rightarrow>
             Resolved
               (foldl (\<lambda>filteredTargets idx.
                         if matchResults ! idx then filteredTargets @ [targets ! idx]
                         else filteredTargets)
                  [] [0..<length matchResults])
         | Rejected e \<Rightarrow> Rejected e
         | Pending \<Rightarrow> Pending,
         concat (map snd rs)))"

definition pathMatchesPatterns ::
  "(string \<Rightarrow> string) \<Rightarrow> ('w, 'e) PathMatcher \<Rightarrow> 'w \<Rightarrow> string
     \<Rightarrow> ('e, bool) promise \<times> 'e invocation list" where
  "pathMatchesPatterns normalize_path this w target = matcher this w (normalize_path target)"

subsection \<open>Predicates used in the statements\<close>

text \<open>
  A caller-supplied predicate is deterministic when the promise it returns for a path
  does not depend on the state of the world in which it is called. A pattern is
  deterministic when every predicate in it is, at every depth.
\<close>

fun deterministic_pattern :: "('w, 'e) TargetPattern \<Rightarrow> bool"
  and deterministic_advanced :: "('w, 'e) AdvancedTargetPattern \<Rightarrow> bool" where
  "deterministic_pattern (Basic s) = True"
| "deterministic_pattern (Advanced a) = deterministic_advanced a"
| "deterministic_advanced (AdvancedTargetPattern bs f) =
     ((\<forall>w w' t. f w t = f w' t) \<and> (\<forall>b \<in> set bs. deterministic_pattern b))"

text \<open>
  A result, the promise together with the calls made, is faithful about rejections when a
  rejected call always makes the promise rejected, and a rejected promise always carries
  the reason of a rejected call.
\<close>

definition reject_faithful :: "('e, 'a) promise \<times> 'e invocation list \<Rightarrow> bool" where
  "reject_faithful r \<longleftrightarrow>
     ((\<exists>c \<in> set (snd r). \<exists>e. snd c = Rejected e) \<longrightarrow> (\<exists>e. fst r = Rejected e)) \<and>
     (\<forall>e. fst r = Rejected e \<longrightarrow> (\<exists>t'. (t', Rejected e) \<in> set (snd r)))"

subsection \<open>Example library functions\<close>

text \<open>
  Stand-ins for the two packages, used only to evaluate the queries on concrete inputs:
  a normalizer that turns every backslash into a slash, and a glob test under which
  \<^verbatim>\<open>**/*X\<close> matches the paths that end with \<open>X\<close> and any other pattern matches itself.
\<close>

definition example_normalize :: "string \<Rightarrow> string" where
  "example_normalize s = map (\<lambda>c. if c = CHR 0x5C then CHR ''/'' else c) s"

definition endsWith :: "string \<Rightarrow> string \<Rightarrow> bool" where
  "endsWith s p = (length p \<le> length s \<and> drop (length s - length p) s = p)"

definition example_glob :: "string \<Rightarrow> string \<Rightarrow> bool" where
  "example_glob g str = (if startsWith g ''**/*'' then endsWith str (slice 4 g) else g = str)"

section \<open>Basic facts\<close>

subsection \<open>The closures applied to a path\<close>

lemma generateMatchingFunction_apply:
  "generateMatchingFunction glob nz patterns w t =
     (let sp = sortPatterns nz patterns in
      if \<not> (exclusionPatterns sp = [] \<or> \<not> picomatch glob (exclusionPatterns sp) t)
        then (Resolved False, [])
      else if (inclusionPatterns sp = [] \<and> advancedPatterns sp = [])
                \<or> picomatch glob (inclusionPatterns sp) t
        then (Resolved True, [])
      else
        (let rs = map (\<lambda>ap. generateAdvancedMatcher glob nz ap w t) (advancedPatterns sp) in
           (case Promise_all (map fst rs) of
              Resolved bs \<Rightarrow> Resolved (True \<in> set bs)
            | Rejected e \<Rightarrow> Rejected e
            | Pending \<Rightarrow> Pending,
            concat (map snd rs))))"
  by (simp add: generateMatchingFunction.simps Let_def comp_def)

lemma generateAdvancedMatcher_apply:
  "generateAdvancedMatcher glob nz pattern w t =
     (case generateMatchingFunction glob nz (basePatterns pattern) w t of
        (Resolved True, calls) \<Rightarrow>
          (advancedMatcher pattern w t, calls @ [(t, advancedMatcher pattern w t)])
      | (Resolved False, calls) \<Rightarrow> (Resolved False, calls)
      | (Rejected e, calls) \<Rightarrow> (Rejected e, calls)
      | (Pending, calls) \<Rightarrow> (Pending, calls))"
  by (simp add: generateAdvancedMatcher.simps Let_def)

lemma pathMatchesPatterns_new:
  "pathMatchesPatterns nz (new_PathMatcher glob nz patterns) w p =
     generateMatchingFunction glob nz patterns w (nz p)"
  by (simp add: pathMatchesPatterns_def new_PathMatcher_def)

lemma filterPathsByPatterns_new:
  "filterPathsByPatterns nz (new_PathMatcher glob nz patterns) w targets =
     (let rs = map (\<lambda>t. generateMatchingFunction glob nz patterns w (nz t)) targets in
        (case Promise_all (map fst rs) of
           Resolved matchResults \<Rightarrow>
             Resolved
               (foldl (\<lambda>filteredTargets idx.
                         if matchResults ! idx then filteredTargets @ [targets ! idx]
                         else filteredTargets)
                  [] [0..<length matchResults])
         | Rejected e \<Rightarrow> Rejected e
         | Pending \<Rightarrow> Pending,
         concat (map snd rs)))"
  by (simp add: filterPathsByPatterns_def new_PathMatcher_def)

lemma filterPathsByPatterns_apply:
  "filterPathsByPatterns nz this w targets =
     (case Promise_all (map (\<lambda>t. fst (matcher this w (nz t))) targets) of
        Resolved matchResults \<Rightarrow>
          Resolved
            (foldl (\<lambda>filteredTargets idx.
                      if matchResults ! idx then filteredTargets @ [targets ! idx]
                      else filteredTargets)
               [] [0..<length matchResults])
      | Rejected e \<Rightarrow> Rejected e
      | Pending \<Rightarrow> Pending,
      concat (map (\<lambda>t. snd (matcher this w (nz t))) targets))"
  by (simp add: filterPathsByPatterns_def comp_def)

lemma picomatch_iff: "picomatch glob gs t \<longleftrightarrow> (\<exists>g \<in> set gs. glob g t)"
  by (simp add: picomatch_def list_ex_iff)

lemma startsWith_bang: "startsWith s ''!'' \<longleftrightarrow> (\<exists>r. s = CHR ''!'' # r)"
  by (cases s) (simp_all add: startsWith_def)

lemma sortPatterns_Nil:
  "sortPatterns nz [] =
     \<lparr>inclusionPatterns = [], exclusionPatterns = [], advancedPatterns = []\<rparr>"
  by (simp add: sortPatterns_def)

lemma generateMatchingFunction_Nil:
  "generateMatchingFunction glob nz [] w t = (Resolved True, [])"
  by (simp add: generateMatchingFunction_apply sortPatterns_Nil)

subsection \<open>Promise.all\<close>

lemma Promise_all_map_Resolved: "Promise_all (map Resolved vs) = Resolved vs"
  by (induction vs) simp_all

lemma Promise_all_ResolvedD: "Promise_all ps = Resolved vs \<Longrightarrow> ps = map Resolved vs"
proof (induction ps arbitrary: vs)
  case Nil
  then show ?case by simp
next
  case (Cons p ps)
  from Cons.prems obtain v vs' where
    "p = Resolved v" "Promise_all ps = Resolved vs'" "vs = v # vs'"
    by (auto split: promise.splits)
  with Cons.IH[of vs'] show ?case by simp
qed

lemma Promise_all_Resolved_iff:
  "Promise_all ps = Resolved vs \<longleftrightarrow> ps = map Resolved vs"
  using Promise_all_ResolvedD Promise_all_map_Resolved by blast

lemma Promise_all_all_Resolved:
  "\<forall>d \<in> set ps. \<exists>b. d = Resolved b \<Longrightarrow> \<exists>vs. ps = map Resolved vs"
proof (induction ps)
  case Nil
  show ?case by simp
next
  case (Cons p ps)
  then obtain b vs where "p = Resolved b" "ps = map Resolved vs" by auto
  then have "p # ps = map Resolved (b # vs)" by simp
  then show ?case by (rule exI)
qed

lemma Promise_all_Rejected_mem: "Promise_all ps = Rejected e \<Longrightarrow> Rejected e \<in> set ps"
  by (induction ps) (auto split: promise.splits)

lemma Promise_all_Rejected_ex: "Rejected e \<in> set ps \<Longrightarrow> \<exists>e'. Promise_all ps = Rejected e'"
  by (induction ps) (auto split: promise.splits)

subsection \<open>Paths decided before the advanced matchers are called\<close>

lemma excluded_rejected:
  "\<exists>g \<in> set (exclusionPatterns (sortPatterns nz patterns)). glob g t \<Longrightarrow>
     generateMatchingFunction glob nz patterns w t = (Resolved False, [])"
  by (auto simp: generateMatchingFunction_apply Let_def picomatch_iff)

lemma included_accepted:
  "\<forall>g \<in> set (exclusionPatterns (sortPatterns nz patterns)). \<not> glob g t \<Longrightarrow>
   \<exists>g \<in> set (inclusionPatterns (sortPatterns nz patterns)). glob g t \<Longrightarrow>
     generateMatchingFunction glob nz patterns w t = (Resolved True, [])"
  by (auto simp: generateMatchingFunction_apply Let_def picomatch_iff)

lemma no_inclusion_no_advanced:
  "inclusionPatterns (sortPatterns nz patterns) = [] \<Longrightarrow>
   advancedPatterns (sortPatterns nz patterns) = [] \<Longrightarrow>
     generateMatchingFunction glob nz patterns w t =
       (Resolved (\<forall>g \<in> set (exclusionPatterns (sortPatterns nz patterns)). \<not> glob g t), [])"
  by (auto simp: generateMatchingFunction_apply Let_def picomatch_iff)

lemma exclusion_clause_iff:
  "(gs = [] \<or> \<not> picomatch glob gs t) \<longleftrightarrow> (\<forall>g \<in> set gs. \<not> glob g t)"
  by (auto simp: picomatch_iff)

subsection \<open>Evaluation on concrete inputs\<close>

lemma generateAdvancedMatcher_eval:
  "generateAdvancedMatcher glob nz (AdvancedTargetPattern bs f) w t =
     (case generateMatchingFunction glob nz bs w t of
        (Resolved True, calls) \<Rightarrow> (f w t, calls @ [(t, f w t)])
      | (Resolved False, calls) \<Rightarrow> (Resolved False, calls)
      | (Rejected e, calls) \<Rightarrow> (Rejected e, calls)
      | (Pending, calls) \<Rightarrow> (Pending, calls))"
  by (simp add: generateAdvancedMatcher_apply split: prod.splits promise.splits bool.splits)

lemmas eval_simps =
  pathMatchesPatterns_new generateMatchingFunction_apply generateAdvancedMatcher_eval
  inclusionPatterns_sortPatterns exclusionPatterns_sortPatterns advancedPatterns_sortPatterns
  picomatch_def example_glob_def example_normalize_def startsWith_def endsWith_def slice_def
  Let_def

section \<open>The composed rule\<close>

text \<open>
  C1. \<^verbatim>\<open>pathMatchesPatterns(p)\<close> normalizes \<open>p\<close> and evaluates the composed rule on the
  normalized path: (the exclusion bucket is empty or the compiled exclusion predicate is
  false) and (the inclusion and advanced buckets are both empty, or the compiled
  inclusion predicate is true, or at least one advanced decision is true). An advanced
  decision is true when its promise is fulfilled with true. The rule is a boolean, and
  the query returns a promise: when every advanced decision for the path is fulfilled,
  the query is fulfilled with the value of the rule; and whenever the query is
  fulfilled, whatever the advanced decisions do, its value is the value of the rule.
\<close>

theorem pathMatchesPatterns_composed_rule:
  "let sp = sortPatterns nz patterns;
       t = nz p;
       decisions =
         map (\<lambda>ap. fst (generateAdvancedMatcher glob nz ap w t)) (advancedPatterns sp);
       rule = ((exclusionPatterns sp = [] \<or> \<not> picomatch glob (exclusionPatterns sp) t) \<and>
               ((inclusionPatterns sp = [] \<and> advancedPatterns sp = [])
                 \<or> picomatch glob (inclusionPatterns sp) t
                 \<or> Resolved True \<in> set decisions));
       result = fst (pathMatchesPatterns nz (new_PathMatcher glob nz patterns) w p)
   in ((\<forall>d \<in> set decisions. \<exists>b. d = Resolved b) \<longrightarrow> result = Resolved rule) \<and>
      (\<forall>b. result = Resolved b \<longrightarrow> b = rule)"
proof -
  define sp where "sp = sortPatterns nz patterns"
  define t where "t = nz p"
  define decisions where
    "decisions =
       map (\<lambda>ap. fst (generateAdvancedMatcher glob nz ap w t)) (advancedPatterns sp)"
  define rule where
    "rule = ((exclusionPatterns sp = [] \<or> \<not> picomatch glob (exclusionPatterns sp) t) \<and>
               ((inclusionPatterns sp = [] \<and> advancedPatterns sp = [])
                 \<or> picomatch glob (inclusionPatterns sp) t
                 \<or> Resolved True \<in> set decisions))"
  define result where
    "result = fst (pathMatchesPatterns nz (new_PathMatcher glob nz patterns) w p)"
  have result_eq: "result =
      (if \<not> (exclusionPatterns sp = [] \<or> \<not> picomatch glob (exclusionPatterns sp) t)
        then Resolved False
       else if (inclusionPatterns sp = [] \<and> advancedPatterns sp = [])
                \<or> picomatch glob (inclusionPatterns sp) t
        then Resolved True
       else (case Promise_all decisions of
              Resolved bs \<Rightarrow> Resolved (True \<in> set bs)
            | Rejected e \<Rightarrow> Rejected e
            | Pending \<Rightarrow> Pending))"
    unfolding result_def pathMatchesPatterns_new generateMatchingFunction_apply
    by (simp add: Let_def sp_def t_def decisions_def comp_def)
  have all_fulfilled: "result = Resolved rule"
    if "\<forall>d \<in> set decisions. \<exists>b. d = Resolved b"
  proof -
    from that obtain vs where vs: "decisions = map Resolved vs"
      using Promise_all_all_Resolved by blast
    then have "Promise_all decisions = Resolved vs"
      by (simp add: Promise_all_Resolved_iff)
    then show ?thesis
      unfolding result_eq rule_def by (auto simp: vs)
  qed
  have fulfilled_value: "b = rule" if "result = Resolved b" for b
  proof (cases "\<not> (exclusionPatterns sp = [] \<or> \<not> picomatch glob (exclusionPatterns sp) t)")
    case True
    with that show ?thesis unfolding result_eq rule_def by auto
  next
    case excl: False
    show ?thesis
    proof (cases "(inclusionPatterns sp = [] \<and> advancedPatterns sp = [])
                \<or> picomatch glob (inclusionPatterns sp) t")
      case True
      with that excl show ?thesis unfolding result_eq rule_def by auto
    next
      case False
      with that excl obtain bs where
        bs: "Promise_all decisions = Resolved bs" "b = (True \<in> set bs)"
        unfolding result_eq by (auto split: promise.splits)
      then have "decisions = map Resolved bs" by (simp add: Promise_all_Resolved_iff)
      with bs excl False show ?thesis unfolding rule_def by auto
    qed
  qed
  show ?thesis
    using all_fulfilled fulfilled_value
    unfolding Let_def sp_def[symmetric] t_def[symmetric] decisions_def[symmetric]
      rule_def[symmetric] result_def[symmetric]
    by blast
qed

theorem pathMatchesPatterns_composed_rule_witness:
  "fst (pathMatchesPatterns example_normalize
          (new_PathMatcher example_glob example_normalize
             [Basic ''**/*.js'', Basic ''!**/*.min.js'',
              Advanced (AdvancedTargetPattern [Basic ''**/*.cls'']
                (\<lambda>(w::bool) t. (Resolved (includes_str t ''Test'') :: (unit, bool) promise)))])
          True (''src'' @ CHR 0x5C # ''FooTest.cls'')) = Resolved True \<and>
   fst (pathMatchesPatterns example_normalize
          (new_PathMatcher example_glob example_normalize
             [Basic ''**/*.js'', Basic ''!**/*.min.js'',
              Advanced (AdvancedTargetPattern [Basic ''**/*.cls'']
                (\<lambda>(w::bool) t. (Resolved (includes_str t ''Test'') :: (unit, bool) promise)))])
          True ''lib/a.min.js'') = Resolved False"
  using pathMatchesPatterns_composed_rule[of example_normalize
             "[Basic ''**/*.js'', Basic ''!**/*.min.js'',
              Advanced (AdvancedTargetPattern [Basic ''**/*.cls'']
                (\<lambda>(w::bool) t. (Resolved (includes_str t ''Test'') :: (unit, bool) promise)))]"
             "''src'' @ CHR 0x5C # ''FooTest.cls''" example_glob True]
    pathMatchesPatterns_composed_rule[of example_normalize
             "[Basic ''**/*.js'', Basic ''!**/*.min.js'',
              Advanced (AdvancedTargetPattern [Basic ''**/*.cls'']
                (\<lambda>(w::bool) t. (Resolved (includes_str t ''Test'') :: (unit, bool) promise)))]"
             "''lib/a.min.js''" example_glob True]
  by (simp add: eval_simps)

section \<open>Exclusion\<close>

text \<open>
  C2. Exclusion dominates and follows De Morgan. The exclusion bucket holds the
  exclusion strings with the marker \<^verbatim>\<open>!\<close> removed; they are compiled into one predicate
  that is true when some glob matches, and the decision negates it. So the exclusion
  clause holds exactly when the normalized path matches none of the exclusion globs;
  and when the normalized path matches at least one exclusion glob, the query is
  fulfilled with false whatever the inclusion and advanced patterns are.
\<close>

theorem exclusion_dominates:
  "let sp = sortPatterns nz patterns; t = nz p in
     exclusionPatterns sp = [slice 1 (nz s). Basic s \<leftarrow> patterns, startsWith (nz s) ''!''] \<and>
     ((exclusionPatterns sp = [] \<or> \<not> picomatch glob (exclusionPatterns sp) t)
        \<longleftrightarrow> (\<forall>g \<in> set (exclusionPatterns sp). \<not> glob g t)) \<and>
     ((\<exists>g \<in> set (exclusionPatterns sp). glob g t) \<longrightarrow>
        pathMatchesPatterns nz (new_PathMatcher glob nz patterns) w p = (Resolved False, []))"
  unfolding Let_def pathMatchesPatterns_new
  using exclusionPatterns_sortPatterns[of nz patterns]
    exclusion_clause_iff[of "exclusionPatterns (sortPatterns nz patterns)" glob "nz p"]
    excluded_rejected[of nz patterns glob "nz p" w]
  by blast

theorem exclusion_dominates_witness:
  "pathMatchesPatterns example_normalize
     (new_PathMatcher example_glob example_normalize
        [Basic ''**/*.ts'', Basic ''!**/*.ts'',
         Advanced (AdvancedTargetPattern [] (\<lambda>(w::bool) t. (Resolved True :: (unit, bool) promise)))])
     True ''src/a.ts'' = (Resolved False, [])"
  using exclusion_dominates[of example_normalize
        "[Basic ''**/*.ts'', Basic ''!**/*.ts'',
         Advanced (AdvancedTargetPattern [] (\<lambda>(w::bool) t. (Resolved True :: (unit, bool) promise)))]"
        "''src/a.ts''" example_glob True]
  by (simp add: eval_simps)

section \<open>Classification\<close>

lemma buckets_length:
  "length [nz s. Basic s \<leftarrow> ps, \<not> startsWith (nz s) ''!''] +
   length [slice 1 (nz s). Basic s \<leftarrow> ps, startsWith (nz s) ''!''] +
   length [a. Advanced a \<leftarrow> ps] = length ps"
  by (induction ps) (simp_all split: TargetPattern.splits)

lemma marker_stripped: "startsWith s ''!'' \<Longrightarrow> s = ''!'' @ slice 1 s"
  by (auto simp: startsWith_bang slice_def)

text \<open>
  C3. \<^verbatim>\<open>sortPatterns\<close> puts every pattern of its input in exactly one bucket, in input
  order. The inclusion bucket holds the normalized strings that do not start with \<^verbatim>\<open>!\<close>;
  the exclusion bucket holds, for the normalized strings that start with \<^verbatim>\<open>!\<close>, what is
  left when that first character is removed; the advanced bucket holds the advanced
  patterns as they were given, their \<^verbatim>\<open>basePatterns\<close> untouched. The three buckets
  together have as many entries as the input, and the empty input gives three empty
  buckets. The function builds new arrays and changes nothing else, which the embedding
  shows as a function from the input to the buckets.
\<close>

theorem sortPatterns_buckets:
  "inclusionPatterns (sortPatterns nz ps) =
     [nz s. Basic s \<leftarrow> ps, \<not> startsWith (nz s) ''!''] \<and>
   exclusionPatterns (sortPatterns nz ps) =
     [slice 1 (nz s). Basic s \<leftarrow> ps, startsWith (nz s) ''!''] \<and>
   advancedPatterns (sortPatterns nz ps) = [a. Advanced a \<leftarrow> ps] \<and>
   length (inclusionPatterns (sortPatterns nz ps))
     + length (exclusionPatterns (sortPatterns nz ps))
     + length (advancedPatterns (sortPatterns nz ps)) = length ps \<and>
   (\<forall>s. startsWith (nz s) ''!'' \<longrightarrow> nz s = ''!'' @ slice 1 (nz s)) \<and>
   sortPatterns nz [] =
     \<lparr>inclusionPatterns = [], exclusionPatterns = [], advancedPatterns = []\<rparr>"
proof -
  have "length (inclusionPatterns (sortPatterns nz ps))
     + length (exclusionPatterns (sortPatterns nz ps))
     + length (advancedPatterns (sortPatterns nz ps)) = length ps"
    unfolding inclusionPatterns_sortPatterns exclusionPatterns_sortPatterns
      advancedPatterns_sortPatterns by (rule buckets_length)
  moreover have "\<forall>s. startsWith (nz s) ''!'' \<longrightarrow> nz s = ''!'' @ slice 1 (nz s)"
    using marker_stripped by blast
  ultimately show ?thesis
    using inclusionPatterns_sortPatterns[of nz ps] exclusionPatterns_sortPatterns[of nz ps]
      advancedPatterns_sortPatterns[of nz ps] sortPatterns_Nil[of nz]
    by blast
qed

theorem sortPatterns_buckets_witness:
  "inclusionPatterns (sortPatterns example_normalize
     [Basic (CHR ''a'' # CHR 0x5C # ''b.js''), Basic ''!x'',
      Advanced (AdvancedTargetPattern [Basic ''!y'']
        (\<lambda>(w::bool) t. (Resolved w :: (unit, bool) promise))),
      Basic ''**/*.ts'']) = [''a/b.js'', ''**/*.ts''] \<and>
   exclusionPatterns (sortPatterns example_normalize
     [Basic (CHR ''a'' # CHR 0x5C # ''b.js''), Basic ''!x'',
      Advanced (AdvancedTargetPattern [Basic ''!y'']
        (\<lambda>(w::bool) t. (Resolved w :: (unit, bool) promise))),
      Basic ''**/*.ts'']) = [''x''] \<and>
   advancedPatterns (sortPatterns example_normalize
     [Basic (CHR ''a'' # CHR 0x5C # ''b.js''), Basic ''!x'',
      Advanced (AdvancedTargetPattern [Basic ''!y'']
        (\<lambda>(w::bool) t. (Resolved w :: (unit, bool) promise))),
      Basic ''**/*.ts'']) = [AdvancedTargetPattern [Basic ''!y''] (\<lambda>w t. Resolved w)]"
  using sortPatterns_buckets[of example_normalize
     "[Basic (CHR ''a'' # CHR 0x5C # ''b.js''), Basic ''!x'',
      Advanced (AdvancedTargetPattern [Basic ''!y'']
        (\<lambda>(w::bool) t. (Resolved w :: (unit, bool) promise))),
      Basic ''**/*.ts'']"]
  apply (simp only: example_normalize_def startsWith_def slice_def)
  apply (elim conjE)
  apply (simp (no_asm_simp))
  done

section \<open>Advanced patterns\<close>

lemma advanced_decision_cases:
  "(fst (generateMatchingFunction glob nz (basePatterns ap) w t) = Resolved False \<longrightarrow>
      fst (generateAdvancedMatcher glob nz ap w t) = Resolved False) \<and>
   (fst (generateMatchingFunction glob nz (basePatterns ap) w t) = Resolved True \<longrightarrow>
      fst (generateAdvancedMatcher glob nz ap w t) = advancedMatcher ap w t)"
  by (cases "generateMatchingFunction glob nz (basePatterns ap) w t")
     (simp add: generateAdvancedMatcher_apply)

lemma advanced_decision_conj:
  "fst (generateMatchingFunction glob nz (basePatterns ap) w t) = Resolved a \<Longrightarrow>
   advancedMatcher ap w t = Resolved b \<Longrightarrow>
   fst (generateAdvancedMatcher glob nz ap w t) = Resolved (a \<and> b)"
  using advanced_decision_cases[of glob nz ap w t] by (cases a) simp_all

lemma cls_base_decision:
  fixes w :: 'w
  assumes "nz ''**/*.cls'' = ''**/*.cls''"
  shows "generateMatchingFunction glob nz ([Basic ''**/*.cls''] :: ('w, 'e) TargetPattern list) w t =
           (Resolved (glob ''**/*.cls'' t), [])"
  using assms
  by (simp add: generateMatchingFunction_apply inclusionPatterns_sortPatterns
        exclusionPatterns_sortPatterns advancedPatterns_sortPatterns picomatch_def
        startsWith_def)

lemma cls_advanced_query:
  fixes w :: 'w and f :: "'w \<Rightarrow> string \<Rightarrow> ('e, bool) promise"
  assumes "nz ''**/*.cls'' = ''**/*.cls''"
  shows "pathMatchesPatterns nz
           (new_PathMatcher glob nz [Advanced (AdvancedTargetPattern [Basic ''**/*.cls''] f)])
           w p =
         (if glob ''**/*.cls'' (nz p)
          then (case f w (nz p) of
                  Resolved b \<Rightarrow> Resolved b | Rejected e \<Rightarrow> Rejected e | Pending \<Rightarrow> Pending,
                [(nz p, f w (nz p))])
          else (Resolved False, []))"
  unfolding pathMatchesPatterns_new
  by (cases "f w (nz p)")
     (simp_all add: generateMatchingFunction_apply[of _ _ "[Advanced _]"]
        generateAdvancedMatcher_eval cls_base_decision[where nz=nz, OF assms]
        inclusionPatterns_sortPatterns
        exclusionPatterns_sortPatterns advancedPatterns_sortPatterns picomatch_def)

lemma cls_Test_example:
  fixes w :: 'w
  assumes "nz ''**/*.cls'' = ''**/*.cls''"
    and "nz ''Foo.cls'' = ''Foo.cls''" and "nz ''FooTest.cls'' = ''FooTest.cls''"
    and "glob ''**/*.cls'' ''Foo.cls''" and "glob ''**/*.cls'' ''FooTest.cls''"
  shows "fst (pathMatchesPatterns nz
           (new_PathMatcher glob nz
              [Advanced (AdvancedTargetPattern [Basic ''**/*.cls'']
                 (\<lambda>(w::'w) t. (Resolved (includes_str t ''Test'') :: ('e, bool) promise)))])
           w ''Foo.cls'') = Resolved False"
    and "fst (pathMatchesPatterns nz
           (new_PathMatcher glob nz
              [Advanced (AdvancedTargetPattern [Basic ''**/*.cls'']
                 (\<lambda>(w::'w) t. (Resolved (includes_str t ''Test'') :: ('e, bool) promise)))])
           w ''FooTest.cls'') = Resolved True"
  using assms(2-)
  by (simp_all add: cls_advanced_query[where nz=nz, OF assms(1)] startsWith_def)

lemma cls_txt_example:
  fixes w :: 'w and f :: "'w \<Rightarrow> string \<Rightarrow> ('e, bool) promise"
  assumes "nz ''**/*.cls'' = ''**/*.cls''" and "\<not> glob ''**/*.cls'' (nz ''Foo.txt'')"
  shows "pathMatchesPatterns nz
           (new_PathMatcher glob nz [Advanced (AdvancedTargetPattern [Basic ''**/*.cls''] f)])
           w ''Foo.txt'' = (Resolved False, [])"
  using assms(2) by (simp add: cls_advanced_query[where nz=nz, OF assms(1)])

text \<open>
  C4. The decision of an advanced pattern is the conjunction of the decision built from
  its \<^verbatim>\<open>basePatterns\<close> and of the caller's \<^verbatim>\<open>advancedMatcher\<close> on the path. The base
  decision is \<^verbatim>\<open>generateMatchingFunction\<close> applied to the \<^verbatim>\<open>basePatterns\<close>, the function that
  also builds the top-level matcher. When both promises are fulfilled the advanced
  decision is fulfilled with the conjunction of their values; a base decision of false
  decides alone, and after a base decision of true the advanced decision is the caller's
  promise. Example: with \<^verbatim>\<open>basePatterns: ['**/*.cls']\<close> and a predicate that is true exactly
  for the paths containing \<^verbatim>\<open>Test\<close>, \<^verbatim>\<open>FooTest.cls\<close> matches and \<^verbatim>\<open>Foo.cls\<close> does not; and
  \<^verbatim>\<open>Foo.txt\<close> does not match whatever the predicate is, which is not even called. The
  example assumes of the two packages what they do on these strings: the normalizer
  leaves the pattern and the two \<^verbatim>\<open>.cls\<close> paths unchanged, and the glob matches the two
  \<^verbatim>\<open>.cls\<close> paths and not the normalized \<^verbatim>\<open>Foo.txt\<close>.
\<close>

theorem advanced_decision_is_conjunction:
  "(\<forall>a b. fst (generateMatchingFunction glob nz (basePatterns ap) w t) = Resolved a \<and>
           advancedMatcher ap w t = Resolved b \<longrightarrow>
           fst (generateAdvancedMatcher glob nz ap w t) = Resolved (a \<and> b)) \<and>
   (fst (generateMatchingFunction glob nz (basePatterns ap) w t) = Resolved False \<longrightarrow>
      fst (generateAdvancedMatcher glob nz ap w t) = Resolved False) \<and>
   (fst (generateMatchingFunction glob nz (basePatterns ap) w t) = Resolved True \<longrightarrow>
      fst (generateAdvancedMatcher glob nz ap w t) = advancedMatcher ap w t) \<and>
   (nz ''**/*.cls'' = ''**/*.cls'' \<and> nz ''Foo.cls'' = ''Foo.cls'' \<and>
    nz ''FooTest.cls'' = ''FooTest.cls'' \<and>
    glob ''**/*.cls'' ''Foo.cls'' \<and> glob ''**/*.cls'' ''FooTest.cls'' \<and>
    \<not> glob ''**/*.cls'' (nz ''Foo.txt'') \<longrightarrow>
      fst (pathMatchesPatterns nz
             (new_PathMatcher glob nz
                [Advanced (AdvancedTargetPattern [Basic ''**/*.cls'']
                   (\<lambda>w t. Resolved (includes_str t ''Test'')))])
             w ''Foo.cls'') = Resolved False \<and>
      fst (pathMatchesPatterns nz
             (new_PathMatcher glob nz
                [Advanced (AdvancedTargetPattern [Basic ''**/*.cls'']
                   (\<lambda>w t. Resolved (includes_str t ''Test'')))])
             w ''FooTest.cls'') = Resolved True \<and>
      (\<forall>f. pathMatchesPatterns nz
             (new_PathMatcher glob nz
                [Advanced (AdvancedTargetPattern [Basic ''**/*.cls''] f)])
             w ''Foo.txt'' = (Resolved False, [])))"
proof -
  have conj: "\<forall>a b. fst (generateMatchingFunction glob nz (basePatterns ap) w t) = Resolved a \<and>
           advancedMatcher ap w t = Resolved b \<longrightarrow>
           fst (generateAdvancedMatcher glob nz ap w t) = Resolved (a \<and> b)"
    using advanced_decision_conj[of glob nz ap w t] by blast
  note cases = advanced_decision_cases[of glob nz ap w t]
  have example: "nz ''**/*.cls'' = ''**/*.cls'' \<and> nz ''Foo.cls'' = ''Foo.cls'' \<and>
    nz ''FooTest.cls'' = ''FooTest.cls'' \<and>
    glob ''**/*.cls'' ''Foo.cls'' \<and> glob ''**/*.cls'' ''FooTest.cls'' \<and>
    \<not> glob ''**/*.cls'' (nz ''Foo.txt'') \<longrightarrow>
      fst (pathMatchesPatterns nz
             (new_PathMatcher glob nz
                [Advanced (AdvancedTargetPattern [Basic ''**/*.cls'']
                   (\<lambda>w t. Resolved (includes_str t ''Test'')))])
             w ''Foo.cls'') = Resolved False \<and>
      fst (pathMatchesPatterns nz
             (new_PathMatcher glob nz
                [Advanced (AdvancedTargetPattern [Basic ''**/*.cls'']
                   (\<lambda>w t. Resolved (includes_str t ''Test'')))])
             w ''FooTest.cls'') = Resolved True \<and>
      (\<forall>f. pathMatchesPatterns nz
             (new_PathMatcher glob nz
                [Advanced (AdvancedTargetPattern [Basic ''**/*.cls''] f)])
             w ''Foo.txt'' = (Resolved False, []))"
    using cls_Test_example[where nz=nz and glob=glob and w=w] cls_txt_example[where nz=nz and glob=glob and w=w] by blast
  show ?thesis
    using conj cases example by (intro conjI) blast+
qed

theorem advanced_decision_is_conjunction_witness:
  "fst (generateAdvancedMatcher example_glob example_normalize
          (AdvancedTargetPattern [Basic ''**/*.cls'']
             (\<lambda>(w::bool) t. (Resolved (includes_str t ''Test'') :: (unit, bool) promise)))
          True ''FooTest.cls'') = Resolved True \<and>
   fst (pathMatchesPatterns example_normalize
          (new_PathMatcher example_glob example_normalize
             [Advanced (AdvancedTargetPattern [Basic ''**/*.cls'']
                (\<lambda>(w::bool) t. (Resolved (includes_str t ''Test'') :: (unit, bool) promise)))])
          True ''FooTest.cls'') = Resolved True \<and>
   fst (pathMatchesPatterns example_normalize
          (new_PathMatcher example_glob example_normalize
             [Advanced (AdvancedTargetPattern [Basic ''**/*.cls'']
                (\<lambda>(w::bool) t. (Resolved (includes_str t ''Test'') :: (unit, bool) promise)))])
          True ''Foo.cls'') = Resolved False \<and>
   pathMatchesPatterns example_normalize
          (new_PathMatcher example_glob example_normalize
             [Advanced (AdvancedTargetPattern [Basic ''**/*.cls'']
                (\<lambda>(w::bool) t. (Rejected () :: (unit, bool) promise)))])
          True ''Foo.txt'' = (Resolved False, [])"
  using advanced_decision_is_conjunction[where glob = example_glob and nz = example_normalize
      and w = True and t = "''FooTest.cls''"
      and ap = "AdvancedTargetPattern [Basic ''**/*.cls'']
             (\<lambda>(w::bool) t. (Resolved (includes_str t ''Test'') :: (unit, bool) promise))"]
  by (simp add: eval_simps)

section \<open>Default accept\<close>

lemma only_exclusion_buckets:
  "\<forall>q \<in> set patterns. \<exists>s. q = Basic s \<and> startsWith (nz s) ''!'' \<Longrightarrow>
     inclusionPatterns (sortPatterns nz patterns) = [] \<and>
     advancedPatterns (sortPatterns nz patterns) = []"
  unfolding inclusionPatterns_sortPatterns advancedPatterns_sortPatterns
  by (induction patterns) auto

text \<open>
  C5. When the inclusion bucket and the advanced bucket are both empty, the query
  accepts exactly the paths that the exclusion clause does not reject: it is fulfilled
  with true when the normalized path matches no exclusion glob, and with false
  otherwise. In particular, for a matcher built only from exclusion patterns, such as
  \<^verbatim>\<open>['!**/node_modules/**']\<close>, every path that matches no exclusion glob is accepted.
\<close>

theorem default_accept:
  "let sp = sortPatterns nz patterns;
       t = nz p;
       result = pathMatchesPatterns nz (new_PathMatcher glob nz patterns) w p in
     (inclusionPatterns sp = [] \<and> advancedPatterns sp = [] \<longrightarrow>
        result = (Resolved (\<forall>g \<in> set (exclusionPatterns sp). \<not> glob g t), [])) \<and>
     ((\<forall>q \<in> set patterns. \<exists>s. q = Basic s \<and> startsWith (nz s) ''!'') \<and>
      (\<forall>g \<in> set (exclusionPatterns sp). \<not> glob g t) \<longrightarrow>
        result = (Resolved True, []))"
proof -
  have "pathMatchesPatterns nz (new_PathMatcher glob nz patterns) w p =
          (Resolved (\<forall>g \<in> set (exclusionPatterns (sortPatterns nz patterns)). \<not> glob g (nz p)), [])"
    if "inclusionPatterns (sortPatterns nz patterns) = []"
       "advancedPatterns (sortPatterns nz patterns) = []"
    unfolding pathMatchesPatterns_new using that by (rule no_inclusion_no_advanced)
  then show ?thesis
    unfolding Let_def using only_exclusion_buckets[of patterns nz] by auto
qed

theorem default_accept_witness:
  "pathMatchesPatterns example_normalize
     (new_PathMatcher example_glob example_normalize
        ([Basic ''!**/node_modules/**''] :: (bool, unit) TargetPattern list))
     True ''src/a.js'' = (Resolved True, [])"
  using default_accept[of example_normalize
        "[Basic ''!**/node_modules/**''] :: (bool, unit) TargetPattern list"
        "''src/a.js''" example_glob True]
  by (simp add: eval_simps)

section \<open>The batch query\<close>

lemma foldl_push_take:
  "n \<le> length rs \<Longrightarrow> n \<le> length ts \<Longrightarrow>
     foldl (\<lambda>filteredTargets idx.
              if rs ! idx then filteredTargets @ [ts ! idx] else filteredTargets) acc [0..<n] =
     acc @ map fst (filter snd (zip (take n ts) (take n rs)))"
proof (induction n)
  case 0
  show ?case by simp
next
  case (Suc n)
  then have n: "n < length rs" "n < length ts" by simp_all
  then have z: "zip (take (Suc n) ts) (take (Suc n) rs) =
                 zip (take n ts) (take n rs) @ [(ts ! n, rs ! n)]"
    by (simp add: take_Suc_conv_app_nth)
  from Suc show ?case
    unfolding z by simp
qed

lemma foldl_push_filter:
  "length rs = length ts \<Longrightarrow>
     foldl (\<lambda>filteredTargets idx.
              if rs ! idx then filteredTargets @ [ts ! idx] else filteredTargets)
       [] [0..<length rs] =
     map fst (filter snd (zip ts rs))"
  using foldl_push_take[of "length rs" rs ts "[]"] by simp

lemma filter_by_results:
  "map d ts = map Resolved bs \<Longrightarrow>
     map fst (filter snd (zip ts bs)) = filter (\<lambda>t. d t = Resolved True) ts"
proof (induction ts arbitrary: bs)
  case Nil
  then show ?case by simp
next
  case (Cons t ts)
  then obtain b bs' where bs: "bs = b # bs'" "d t = Resolved b" "map d ts = map Resolved bs'"
    by (cases bs) auto
  with Cons.IH[of bs'] show ?case by (cases b) simp_all
qed

lemma filterPathsByPatterns_Resolved:
  assumes "Promise_all (map (\<lambda>t. fst (matcher this w (nz t))) targets) = Resolved bs"
  shows "fst (filterPathsByPatterns nz this w targets) =
           Resolved (filter (\<lambda>t. fst (matcher this w (nz t)) = Resolved True) targets)"
proof -
  from assms have m: "map (\<lambda>t. fst (matcher this w (nz t))) targets = map Resolved bs"
    by (rule Promise_all_ResolvedD)
  then have "length (map (\<lambda>t. fst (matcher this w (nz t))) targets) = length (map Resolved bs)"
    by simp
  then have len: "length bs = length targets" by simp
  have "fst (filterPathsByPatterns nz this w targets) =
          Resolved (foldl (\<lambda>filteredTargets idx.
                      if bs ! idx then filteredTargets @ [targets ! idx]
                      else filteredTargets) [] [0..<length bs])"
    unfolding filterPathsByPatterns_apply assms by simp
  also have "\<dots> = Resolved (map fst (filter snd (zip targets bs)))"
    by (simp only: foldl_push_filter[OF len])
  also have "\<dots> = Resolved (filter (\<lambda>t. fst (matcher this w (nz t)) = Resolved True) targets)"
    using m by (simp only: filter_by_results)
  finally show ?thesis .
qed

lemma filterPathsByPatterns_js_example:
  assumes "nz ''**/*.js'' = ''**/*.js''"
    and "glob ''**/*.js'' (nz ''b.js'')" and "glob ''**/*.js'' (nz ''a.js'')"
  shows "filterPathsByPatterns nz
           (new_PathMatcher glob nz ([Basic ''**/*.js''] :: ('w, 'e) TargetPattern list)) w
           [''b.js'', ''a.js''] = (Resolved [''b.js'', ''a.js''], [])"
proof -
  let ?patterns = "[Basic ''**/*.js''] :: ('w, 'e) TargetPattern list"
  have "generateMatchingFunction glob nz ?patterns w (nz t) = (Resolved True, [])"
    if "glob ''**/*.js'' (nz t)" for t
    using that assms(1)
    by (simp add: generateMatchingFunction_apply inclusionPatterns_sortPatterns
        exclusionPatterns_sortPatterns advancedPatterns_sortPatterns picomatch_def
        startsWith_def)
  from this[OF assms(2)] this[OF assms(3)] show ?thesis
    by (simp add: filterPathsByPatterns_new)
qed

text \<open>
  C6. \<^verbatim>\<open>filterPathsByPatterns\<close> returns the input strings, as they were given and in the
  order in which they were given, whose normalized form the decision function accepts.
  When the decisions for all the targets are fulfilled, the batch is fulfilled with
  exactly that subsequence; and whenever the batch is fulfilled, its value is that
  subsequence. Example: with the one inclusion pattern \<^verbatim>\<open>**/*.js\<close>, the input
  \<^verbatim>\<open>['b.js', 'a.js']\<close> gives \<^verbatim>\<open>['b.js', 'a.js']\<close>, in that order, provided the normalizer
  leaves the pattern unchanged and the glob matches the two normalized paths.
\<close>

theorem filterPathsByPatterns_subsequence:
  "let decide = (\<lambda>t. fst (matcher this w (nz t)));
       result = fst (filterPathsByPatterns nz this w targets) in
     ((\<forall>t \<in> set targets. \<exists>b. decide t = Resolved b) \<longrightarrow>
        result = Resolved (filter (\<lambda>t. decide t = Resolved True) targets)) \<and>
     (\<forall>xs. result = Resolved xs \<longrightarrow> xs = filter (\<lambda>t. decide t = Resolved True) targets) \<and>
     (nz ''**/*.js'' = ''**/*.js'' \<and> glob ''**/*.js'' (nz ''b.js'') \<and> glob ''**/*.js'' (nz ''a.js'')
        \<longrightarrow> filterPathsByPatterns nz (new_PathMatcher glob nz [Basic ''**/*.js'']) w'
              [''b.js'', ''a.js''] = (Resolved [''b.js'', ''a.js''], []))"
proof -
  let ?decide = "\<lambda>t. fst (matcher this w (nz t))"
  let ?result = "fst (filterPathsByPatterns nz this w targets)"
  have all_fulfilled: "(\<forall>t \<in> set targets. \<exists>b. ?decide t = Resolved b) \<longrightarrow>
        ?result = Resolved (filter (\<lambda>t. ?decide t = Resolved True) targets)"
  proof
    assume "\<forall>t \<in> set targets. \<exists>b. ?decide t = Resolved b"
    then have "\<forall>d \<in> set (map ?decide targets). \<exists>b. d = Resolved b" by simp
    then obtain bs where "map ?decide targets = map Resolved bs"
      using Promise_all_all_Resolved by blast
    then have "Promise_all (map ?decide targets) = Resolved bs"
      by (simp only: Promise_all_map_Resolved)
    then show "?result = Resolved (filter (\<lambda>t. ?decide t = Resolved True) targets)"
      by (rule filterPathsByPatterns_Resolved)
  qed
  have fulfilled_value:
    "\<forall>xs. ?result = Resolved xs \<longrightarrow> xs = filter (\<lambda>t. ?decide t = Resolved True) targets"
  proof (intro allI impI)
    fix xs
    assume r: "?result = Resolved xs"
    then obtain bs where "Promise_all (map ?decide targets) = Resolved bs"
      unfolding filterPathsByPatterns_apply by (auto split: promise.splits)
    then have "?result = Resolved (filter (\<lambda>t. ?decide t = Resolved True) targets)"
      by (rule filterPathsByPatterns_Resolved)
    with r show "xs = filter (\<lambda>t. ?decide t = Resolved True) targets" by simp
  qed
  have example: "nz ''**/*.js'' = ''**/*.js'' \<and> glob ''**/*.js'' (nz ''b.js'')
        \<and> glob ''**/*.js'' (nz ''a.js'')
        \<longrightarrow> filterPathsByPatterns nz (new_PathMatcher glob nz [Basic ''**/*.js'']) w'
              [''b.js'', ''a.js''] = (Resolved [''b.js'', ''a.js''], [])"
    using filterPathsByPatterns_js_example[of nz glob w'] by blast
  show ?thesis
    unfolding Let_def by (intro conjI all_fulfilled fulfilled_value example)
qed

theorem filterPathsByPatterns_subsequence_witness:
  "filterPathsByPatterns example_normalize
     (new_PathMatcher example_glob example_normalize
        [Basic ''**/*.js'', Basic ''!**/*.min.js'',
         Advanced (AdvancedTargetPattern [Basic ''**/*.cls'']
           (\<lambda>(w::bool) t. (Resolved (includes_str t ''Test'') :: (unit, bool) promise)))])
     True [''lib'' @ CHR 0x5C # ''b.js'', ''FooTest.cls'', ''a.min.js'', ''Foo.cls'', ''a.js''] =
     (Resolved [''lib'' @ CHR 0x5C # ''b.js'', ''FooTest.cls'', ''a.js''],
      [(''FooTest.cls'', Resolved True), (''Foo.cls'', Resolved False)])"
  using filterPathsByPatterns_subsequence[of
     "new_PathMatcher example_glob example_normalize
        [Basic ''**/*.js'', Basic ''!**/*.min.js'',
         Advanced (AdvancedTargetPattern [Basic ''**/*.cls'']
           (\<lambda>(w::bool) t. (Resolved (includes_str t ''Test'') :: (unit, bool) promise)))]"
     True example_normalize
     "[''lib'' @ CHR 0x5C # ''b.js'', ''FooTest.cls'', ''a.min.js'', ''Foo.cls'', ''a.js'']"
     example_glob True]
  by (simp add: eval_simps filterPathsByPatterns_new)

section \<open>Failing advanced matchers\<close>

lemma reject_faithful_Resolved: "reject_faithful (Resolved b, [])"
  by (simp add: reject_faithful_def)

lemma gather_faithful:
  assumes "\<forall>r \<in> set rs. reject_faithful r"
  shows "reject_faithful
           (case Promise_all (map fst rs) of
              Resolved bs \<Rightarrow> Resolved (f bs)
            | Rejected e \<Rightarrow> Rejected e
            | Pending \<Rightarrow> Pending,
            concat (map snd rs))"
proof -
  have 1: "\<exists>e. Promise_all (map fst rs) = Rejected e"
    if "\<exists>c \<in> set (concat (map snd rs)). \<exists>e. snd c = Rejected e"
  proof -
    from that obtain r c e where r: "r \<in> set rs" "c \<in> set (snd r)" "snd c = Rejected e"
      by auto
    with assms obtain e' where "fst r = Rejected e'"
      unfolding reject_faithful_def by blast
    with r(1) have "Rejected e' \<in> set (map fst rs)" by force
    then show ?thesis by (rule Promise_all_Rejected_ex)
  qed
  have 2: "\<exists>t'. (t', Rejected e) \<in> set (concat (map snd rs))"
    if "Promise_all (map fst rs) = Rejected e" for e
  proof -
    from that have "Rejected e \<in> set (map fst rs)" by (rule Promise_all_Rejected_mem)
    then obtain r where r: "r \<in> set rs" "fst r = Rejected e" by auto
    with assms obtain t' where "(t', Rejected e) \<in> set (snd r)"
      unfolding reject_faithful_def by blast
    with r(1) show ?thesis by auto
  qed
  show ?thesis
    unfolding reject_faithful_def fst_conv snd_conv
  proof (intro conjI impI allI)
    assume "\<exists>c \<in> set (concat (map snd rs)). \<exists>e. snd c = Rejected e"
    then obtain e where "Promise_all (map fst rs) = Rejected e" using 1 by blast
    then show "\<exists>e. (case Promise_all (map fst rs) of
              Resolved bs \<Rightarrow> Resolved (f bs)
            | Rejected e \<Rightarrow> Rejected e
            | Pending \<Rightarrow> Pending) = Rejected e" by simp
  next
    fix e
    assume "(case Promise_all (map fst rs) of
              Resolved bs \<Rightarrow> Resolved (f bs)
            | Rejected e \<Rightarrow> Rejected e
            | Pending \<Rightarrow> Pending) = Rejected e"
    then have "Promise_all (map fst rs) = Rejected e" by (simp split: promise.splits)
    then show "\<exists>t'. (t', Rejected e) \<in> set (concat (map snd rs))" by (rule 2)
  qed
qed

lemma reject_faithful_matchers:
  fixes patterns :: "('w, 'e) TargetPattern list" and ap :: "('w, 'e) AdvancedTargetPattern"
  shows "reject_faithful (generateMatchingFunction glob nz patterns w t)"
  "reject_faithful (generateAdvancedMatcher glob nz ap w t)"
proof (induction glob nz patterns and glob nz ap arbitrary: w t and w t
        rule: generateMatchingFunction_generateAdvancedMatcher.induct)
  case (1 glob nz patterns)
  define sp where "sp = sortPatterns nz patterns"
  have "\<forall>r \<in> set (map (\<lambda>ap. generateAdvancedMatcher glob nz ap w t) (advancedPatterns sp)).
          reject_faithful r"
    using "1.IH"[OF sp_def refl refl] by auto
  then have "reject_faithful
           (case Promise_all (map fst (map (\<lambda>ap. generateAdvancedMatcher glob nz ap w t) (advancedPatterns sp))) of
              Resolved bs \<Rightarrow> Resolved (True \<in> set bs)
            | Rejected e \<Rightarrow> Rejected e
            | Pending \<Rightarrow> Pending,
            concat (map snd (map (\<lambda>ap. generateAdvancedMatcher glob nz ap w t) (advancedPatterns sp))))"
    by (rule gather_faithful)
  then show ?case
    unfolding generateMatchingFunction_apply Let_def sp_def
    by (simp add: reject_faithful_Resolved)
next
  case (2 glob nz pattern)
  obtain r calls where base: "generateMatchingFunction glob nz (basePatterns pattern) w t = (r, calls)"
    by (cases "generateMatchingFunction glob nz (basePatterns pattern) w t")
  with "2.IH"[of w t] have f: "reject_faithful (r, calls)" by simp
  show ?case
  proof (cases r)
    case (Resolved b)
    with f show ?thesis
      unfolding generateAdvancedMatcher_apply base reject_faithful_def
      by (cases b) auto
  next
    case (Rejected e)
    with f show ?thesis
      unfolding generateAdvancedMatcher_apply base reject_faithful_def by auto
  next
    case Pending
    with f show ?thesis
      unfolding generateAdvancedMatcher_apply base reject_faithful_def by auto
  qed
qed

lemma reject_faithful_filterPathsByPatterns:
  "reject_faithful (filterPathsByPatterns nz (new_PathMatcher glob nz patterns) w targets)"
  unfolding filterPathsByPatterns_new Let_def
  by (rule gather_faithful) (simp add: reject_faithful_matchers(1))

lemma batch_rejected_if_single_rejected:
  assumes "p \<in> set targets"
    and "fst (pathMatchesPatterns nz (new_PathMatcher glob nz patterns) w p) = Rejected e"
  shows "\<exists>e'. fst (filterPathsByPatterns nz (new_PathMatcher glob nz patterns) w targets) = Rejected e'"
proof -
  let ?rs = "map (\<lambda>t. generateMatchingFunction glob nz patterns w (nz t)) targets"
  from assms(2) have "fst (generateMatchingFunction glob nz patterns w (nz p)) = Rejected e"
    unfolding pathMatchesPatterns_new .
  then have "Rejected e = fst (generateMatchingFunction glob nz patterns w (nz p))"
    by (rule sym)
  with assms(1) have "Rejected e \<in> (\<lambda>t. fst (generateMatchingFunction glob nz patterns w (nz t))) ` set targets"
    by (rule rev_image_eqI)
  then have "Rejected e \<in> set (map fst ?rs)"
    by (simp add: comp_def)
  then have "\<exists>e'. Promise_all (map fst ?rs) = Rejected e'"
    by (rule Promise_all_Rejected_ex)
  then obtain e' where "Promise_all (map fst ?rs) = Rejected e'" ..
  then have "fst (filterPathsByPatterns nz (new_PathMatcher glob nz patterns) w targets) = Rejected e'"
    unfolding filterPathsByPatterns_new Let_def by (simp only: fst_conv promise.case)
  then show ?thesis by (rule exI)
qed

lemma rejected_call_rejects:
  assumes "reject_faithful r" and "\<exists>c \<in> set (snd r). \<exists>e. snd c = Rejected e"
  shows "\<exists>e t'. fst r = Rejected e \<and> (t', Rejected e) \<in> set (snd r)"
  using assms unfolding reject_faithful_def by blast

lemma advanced_predicate_rejects:
  "fst (generateMatchingFunction glob nz (basePatterns ap) w t) = Resolved True \<Longrightarrow>
   advancedMatcher ap w t = Rejected e \<Longrightarrow>
   fst (generateAdvancedMatcher glob nz ap w t) = Rejected e"
  by (cases "generateMatchingFunction glob nz (basePatterns ap) w t")
     (simp add: generateAdvancedMatcher_apply)

text \<open>
  C7. A failure of a caller-supplied advanced matcher is not caught anywhere. Where the
  predicate is called (the base decision is fulfilled with true) and its promise is
  rejected, the advanced decision is rejected with the same reason. For a single query:
  if any caller-supplied predicate called during the query is rejected, the query is
  rejected, not fulfilled with false, and its reason is that of a rejected call. The
  same holds for the batch query over all the predicates called for all its targets,
  and a rejected decision for one target rejects the whole batch when the results are
  gathered.
\<close>

theorem advanced_failure_propagates:
  "let single = pathMatchesPatterns nz (new_PathMatcher glob nz patterns) w p;
       batch = filterPathsByPatterns nz (new_PathMatcher glob nz patterns) w targets in
     (\<forall>e. fst (generateMatchingFunction glob nz (basePatterns ap) w t) = Resolved True \<and>
          advancedMatcher ap w t = Rejected e \<longrightarrow>
          fst (generateAdvancedMatcher glob nz ap w t) = Rejected e) \<and>
     ((\<exists>c \<in> set (snd single). \<exists>e. snd c = Rejected e) \<longrightarrow>
        (\<exists>e t'. fst single = Rejected e \<and> (t', Rejected e) \<in> set (snd single))) \<and>
     ((\<exists>c \<in> set (snd batch). \<exists>e. snd c = Rejected e) \<longrightarrow>
        (\<exists>e t'. fst batch = Rejected e \<and> (t', Rejected e) \<in> set (snd batch))) \<and>
     (p \<in> set targets \<and> (\<exists>e. fst single = Rejected e) \<longrightarrow> (\<exists>e. fst batch = Rejected e))"
proof -
  let ?single = "pathMatchesPatterns nz (new_PathMatcher glob nz patterns) w p"
  let ?batch = "filterPathsByPatterns nz (new_PathMatcher glob nz patterns) w targets"
  have site: "\<forall>e. fst (generateMatchingFunction glob nz (basePatterns ap) w t) = Resolved True \<and>
          advancedMatcher ap w t = Rejected e \<longrightarrow>
          fst (generateAdvancedMatcher glob nz ap w t) = Rejected e"
    using advanced_predicate_rejects[of glob nz ap w t] by blast
  have "reject_faithful ?single"
    unfolding pathMatchesPatterns_new by (rule reject_faithful_matchers(1))
  then have single: "(\<exists>c \<in> set (snd ?single). \<exists>e. snd c = Rejected e) \<longrightarrow>
        (\<exists>e t'. fst ?single = Rejected e \<and> (t', Rejected e) \<in> set (snd ?single))"
    using rejected_call_rejects by blast
  have "reject_faithful ?batch"
    by (rule reject_faithful_filterPathsByPatterns)
  then have batch: "(\<exists>c \<in> set (snd ?batch). \<exists>e. snd c = Rejected e) \<longrightarrow>
        (\<exists>e t'. fst ?batch = Rejected e \<and> (t', Rejected e) \<in> set (snd ?batch))"
    using rejected_call_rejects by blast
  have gathered: "p \<in> set targets \<and> (\<exists>e. fst ?single = Rejected e) \<longrightarrow>
        (\<exists>e. fst ?batch = Rejected e)"
    using batch_rejected_if_single_rejected[of p targets nz glob patterns w] by blast
  show ?thesis
    unfolding Let_def by (intro conjI site single batch gathered)
qed

theorem advanced_failure_propagates_witness:
  "pathMatchesPatterns example_normalize
     (new_PathMatcher example_glob example_normalize
        [Advanced (AdvancedTargetPattern [Basic ''**/*.cls'']
           (\<lambda>(w::bool) t. if includes_str t ''Bad'' then Rejected ''boom'' else Resolved True))])
     True ''Bad.cls'' = (Rejected ''boom'', [(''Bad.cls'', Rejected ''boom'')]) \<and>
   filterPathsByPatterns example_normalize
     (new_PathMatcher example_glob example_normalize
        [Advanced (AdvancedTargetPattern [Basic ''**/*.cls'']
           (\<lambda>(w::bool) t. if includes_str t ''Bad'' then Rejected ''boom'' else Resolved True))])
     True [''A.cls'', ''Bad.cls'', ''x.txt''] =
     (Rejected ''boom'', [(''A.cls'', Resolved True), (''Bad.cls'', Rejected ''boom'')])"
  using advanced_failure_propagates[of example_normalize example_glob
        "[Advanced (AdvancedTargetPattern [Basic ''**/*.cls'']
           (\<lambda>(w::bool) t. if includes_str t ''Bad'' then Rejected ''boom'' else Resolved True))]"
        True "''Bad.cls''" "[''A.cls'', ''Bad.cls'', ''x.txt'']"
        "AdvancedTargetPattern [Basic ''**/*.cls'']
           (\<lambda>(w::bool) t. if includes_str t ''Bad'' then Rejected ''boom'' else Resolved True)"
        "''Bad.cls''"]
  by (simp add: eval_simps filterPathsByPatterns_new)

section \<open>Repeated queries\<close>

lemma deterministic_matchers:
  fixes patterns :: "('w, 'e) TargetPattern list" and ap :: "('w, 'e) AdvancedTargetPattern"
  shows "\<forall>q \<in> set patterns. deterministic_pattern q \<Longrightarrow>
           generateMatchingFunction glob nz patterns w t =
           generateMatchingFunction glob nz patterns w' t"
    and "deterministic_advanced ap \<Longrightarrow>
           generateAdvancedMatcher glob nz ap w t = generateAdvancedMatcher glob nz ap w' t"
proof (induction glob nz patterns and glob nz ap arbitrary: w w' t and w w' t
        rule: generateMatchingFunction_generateAdvancedMatcher.induct)
  case (1 glob nz patterns)
  define sp where "sp = sortPatterns nz patterns"
  have "generateAdvancedMatcher glob nz ap w t = generateAdvancedMatcher glob nz ap w' t"
    if "ap \<in> set (advancedPatterns sp)" for ap
  proof -
    from that have "Advanced ap \<in> set patterns"
      unfolding sp_def by (rule advancedPatterns_sortPatterns_mem)
    with "1.prems" have "deterministic_advanced ap" by fastforce
    with that show ?thesis using "1.IH"[OF sp_def refl refl] by blast
  qed
  then have eq: "map (\<lambda>ap. generateAdvancedMatcher glob nz ap w t) (advancedPatterns sp) =
             map (\<lambda>ap. generateAdvancedMatcher glob nz ap w' t) (advancedPatterns sp)"
    by simp
  show ?case
    unfolding generateMatchingFunction_apply Let_def sp_def[symmetric] eq by (rule refl)
next
  case (2 glob nz pattern)
  obtain bs f where p: "pattern = AdvancedTargetPattern bs f" by (cases pattern)
  with "2.prems" have f: "f w t = f w' t" and bs: "\<forall>b \<in> set bs. deterministic_pattern b"
    by auto
  from bs have base: "generateMatchingFunction glob nz (basePatterns pattern) w t =
                generateMatchingFunction glob nz (basePatterns pattern) w' t"
    using "2.IH"[of w t w'] p by simp
  from f p have pred: "advancedMatcher pattern w t = advancedMatcher pattern w' t"
    by simp
  show ?case
    unfolding generateAdvancedMatcher_apply base pred by (rule refl)
qed

text \<open>
  C8. The matcher object is built once and no query changes it: both queries only read
  its one field. So two calls of \<^verbatim>\<open>filterPathsByPatterns\<close> on the same matcher with the
  same input can differ only through the caller's predicates, which are called in the
  state of the world \<open>w1\<close> the first time and \<open>w2\<close> the second time. When the
  caller's predicates are deterministic, the two calls return the same result, and
  make the same calls of predicates with the same outcomes.
\<close>

theorem filterPathsByPatterns_repeatable:
  "(\<forall>q \<in> set patterns. deterministic_pattern q) \<longrightarrow>
     filterPathsByPatterns nz (new_PathMatcher glob nz patterns) w1 targets =
     filterPathsByPatterns nz (new_PathMatcher glob nz patterns) w2 targets"
proof
  assume "\<forall>q \<in> set patterns. deterministic_pattern q"
  then have "generateMatchingFunction glob nz patterns w1 t =
             generateMatchingFunction glob nz patterns w2 t" for t
    by (rule deterministic_matchers(1))
  then show "filterPathsByPatterns nz (new_PathMatcher glob nz patterns) w1 targets =
     filterPathsByPatterns nz (new_PathMatcher glob nz patterns) w2 targets"
    unfolding filterPathsByPatterns_new by simp
qed

theorem filterPathsByPatterns_repeatable_witness:
  "filterPathsByPatterns example_normalize
     (new_PathMatcher example_glob example_normalize
        [Basic ''**/*.js'', Basic ''!**/*.min.js'',
         Advanced (AdvancedTargetPattern [Basic ''**/*.cls'']
           (\<lambda>(w::nat) t. (Resolved (includes_str t ''Test'') :: (unit, bool) promise)))])
     1 [''b.js'', ''FooTest.cls'', ''a.min.js'', ''Foo.cls'', ''a.js''] =
     (Resolved [''b.js'', ''FooTest.cls'', ''a.js''],
      [(''FooTest.cls'', Resolved True), (''Foo.cls'', Resolved False)]) \<and>
   filterPathsByPatterns example_normalize
     (new_PathMatcher example_glob example_normalize
        [Basic ''**/*.js'', Basic ''!**/*.min.js'',
         Advanced (AdvancedTargetPattern [Basic ''**/*.cls'']
           (\<lambda>(w::nat) t. (Resolved (includes_str t ''Test'') :: (unit, bool) promise)))])
     2 [''b.js'', ''FooTest.cls'', ''a.min.js'', ''Foo.cls'', ''a.js''] =
     (Resolved [''b.js'', ''FooTest.cls'', ''a.js''],
      [(''FooTest.cls'', Resolved True), (''Foo.cls'', Resolved False)])"
proof -
  have first: "filterPathsByPatterns example_normalize
     (new_PathMatcher example_glob example_normalize
        [Basic ''**/*.js'', Basic ''!**/*.min.js'',
         Advanced (AdvancedTargetPattern [Basic ''**/*.cls'']
           (\<lambda>(w::nat) t. (Resolved (includes_str t ''Test'') :: (unit, bool) promise)))])
     1 [''b.js'', ''FooTest.cls'', ''a.min.js'', ''Foo.cls'', ''a.js''] =
     (Resolved [''b.js'', ''FooTest.cls'', ''a.js''],
      [(''FooTest.cls'', Resolved True), (''Foo.cls'', Resolved False)])"
    by (simp add: eval_simps filterPathsByPatterns_new)
  have "filterPathsByPatterns example_normalize
     (new_PathMatcher example_glob example_normalize
        [Basic ''**/*.js'', Basic ''!**/*.min.js'',
         Advanced (AdvancedTargetPattern [Basic ''**/*.cls'']
           (\<lambda>(w::nat) t. (Resolved (includes_str t ''Test'') :: (unit, bool) promise)))])
     1 [''b.js'', ''FooTest.cls'', ''a.min.js'', ''Foo.cls'', ''a.js''] =
   filterPathsByPatterns example_normalize
     (new_PathMatcher example_glob example_normalize
        [Basic ''**/*.js'', Basic ''!**/*.min.js'',
         Advanced (AdvancedTargetPattern [Basic ''**/*.cls'']
           (\<lambda>(w::nat) t. (Resolved (includes_str t ''Test'') :: (unit, bool) promise)))])
     2 [''b.js'', ''FooTest.cls'', ''a.min.js'', ''Foo.cls'', ''a.js'']"
    using filterPathsByPatterns_repeatable[of
        "[Basic ''**/*.js'', Basic ''!**/*.min.js'',
         Advanced (AdvancedTargetPattern [Basic ''**/*.cls'']
           (\<lambda>(w::nat) t. (Resolved (includes_str t ''Test'') :: (unit, bool) promise)))]"
        example_normalize example_glob 1
        "[''b.js'', ''FooTest.cls'', ''a.min.js'', ''Foo.cls'', ''a.js'']" 2]
    by simp
  with first show ?thesis by (simp only: simp_thms)
qed

section \<open>Paths decided without the advanced matchers\<close>

text \<open>
  C9. If the normalized path matches some exclusion glob, the query is fulfilled with
  false and no caller-supplied predicate is called. If it matches no exclusion glob and
  matches some inclusion glob, the query is fulfilled with true and no caller-supplied
  predicate is called. In both cases the query is fulfilled whatever the advanced
  predicates would do, so a rejecting predicate cannot make the query fail for such a
  path.
\<close>

theorem short_circuit_without_advanced_call:
  "let sp = sortPatterns nz patterns;
       t = nz p;
       result = pathMatchesPatterns nz (new_PathMatcher glob nz patterns) w p in
     ((\<exists>g \<in> set (exclusionPatterns sp). glob g t) \<longrightarrow> result = (Resolved False, [])) \<and>
     ((\<forall>g \<in> set (exclusionPatterns sp). \<not> glob g t) \<and>
      (\<exists>g \<in> set (inclusionPatterns sp). glob g t) \<longrightarrow> result = (Resolved True, []))"
  unfolding Let_def pathMatchesPatterns_new
  using excluded_rejected[of nz patterns glob "nz p" w]
    included_accepted[of nz patterns glob "nz p" w]
  by blast

theorem short_circuit_without_advanced_call_witness:
  "pathMatchesPatterns example_normalize
     (new_PathMatcher example_glob example_normalize
        [Basic ''**/*.js'', Basic ''!**/*.min.js'',
         Advanced (AdvancedTargetPattern [] (\<lambda>(w::bool) t. (Rejected ''boom'' :: (string, bool) promise)))])
     True ''lib/a.min.js'' = (Resolved False, []) \<and>
   pathMatchesPatterns example_normalize
     (new_PathMatcher example_glob example_normalize
        [Basic ''**/*.js'', Basic ''!**/*.min.js'',
         Advanced (AdvancedTargetPattern [] (\<lambda>(w::bool) t. (Rejected ''boom'' :: (string, bool) promise)))])
     True ''lib/a.js'' = (Resolved True, []) \<and>
   pathMatchesPatterns example_normalize
     (new_PathMatcher example_glob example_normalize
        [Basic ''**/*.js'', Basic ''!**/*.min.js'',
         Advanced (AdvancedTargetPattern [] (\<lambda>(w::bool) t. (Rejected ''boom'' :: (string, bool) promise)))])
     True ''lib/a.cls'' = (Rejected ''boom'', [(''lib/a.cls'', Rejected ''boom'')])"
  using short_circuit_without_advanced_call[of example_normalize
        "[Basic ''**/*.js'', Basic ''!**/*.min.js'',
         Advanced (AdvancedTargetPattern [] (\<lambda>(w::bool) t. (Rejected ''boom'' :: (string, bool) promise)))]"
        "''lib/a.min.js''" example_glob True]
    short_circuit_without_advanced_call[of example_normalize
        "[Basic ''**/*.js'', Basic ''!**/*.min.js'',
         Advanced (AdvancedTargetPattern [] (\<lambda>(w::bool) t. (Rejected ''boom'' :: (string, bool) promise)))]"
        "''lib/a.js''" example_glob True]
  by (simp add: eval_simps)

section \<open>Advanced patterns without base patterns\<close>

text \<open>
  C10. When the \<^verbatim>\<open>basePatterns\<close> of an advanced pattern is the empty list, the base
  decision built from it accepts every path (all three buckets of the nested matcher are
  empty), so the advanced decision is what the caller's \<^verbatim>\<open>advancedMatcher\<close> returns for
  the path, and that predicate is called exactly once.
\<close>

theorem empty_basePatterns_advancedMatcher_alone:
  "basePatterns ap = [] \<longrightarrow>
     generateMatchingFunction glob nz (basePatterns ap) w t = (Resolved True, []) \<and>
     generateAdvancedMatcher glob nz ap w t =
       (advancedMatcher ap w t, [(t, advancedMatcher ap w t)])"
  by (simp add: generateAdvancedMatcher_apply generateMatchingFunction_Nil)

theorem empty_basePatterns_advancedMatcher_alone_witness:
  "generateAdvancedMatcher example_glob example_normalize
      (AdvancedTargetPattern []
        (\<lambda>(w::bool) t. if w then Resolved (includes_str t ''Test'') else Rejected (0::nat)))
      True ''FooTest.cls'' = (Resolved True, [(''FooTest.cls'', Resolved True)]) \<and>
   generateAdvancedMatcher example_glob example_normalize
      (AdvancedTargetPattern []
        (\<lambda>(w::bool) t. if w then Resolved (includes_str t ''Test'') else Rejected (0::nat)))
      False ''FooTest.cls'' = (Rejected 0, [(''FooTest.cls'', Rejected 0)])"
  using empty_basePatterns_advancedMatcher_alone[of
      "AdvancedTargetPattern []
        (\<lambda>(w::bool) t. if w then Resolved (includes_str t ''Test'') else Rejected (0::nat))"
      example_glob example_normalize True "''FooTest.cls''"]
    empty_basePatterns_advancedMatcher_alone[of
      "AdvancedTargetPattern []
        (\<lambda>(w::bool) t. if w then Resolved (includes_str t ''Test'') else Rejected (0::nat))"
      example_glob example_normalize False "''FooTest.cls''"]
  by (simp add: startsWith_def)

end
